theory Spec2Isabelle
  imports Complex_Main
begin

section \<open>The status handler of the MQTT client (src/lib/mqtt-client/client.js)\<close>

text \<open>
  The repository is one class, \<^verbatim>\<open>Client\<close>, whose only logic is the method
  \<^verbatim>\<open>statusHandler (message, topic)\<close>:
  \<^verbatim>\<open>
    async statusHandler (message, topic) {
      const turtleIdMatch = topic.match(/([^/]+)\/status$/)
      if (!turtleIdMatch) {
        log.error('Could extract turtleId from topic', { topic })
        return
      }
      const turtleId = turtleIdMatch[1]
      log.verbose('Received status update', { turtleId, status: message, topic })
      try {
        if (message === null) {
          this.turtles.deleteTurtle(turtleId)
        } else {
          if (message.online) {
            message.inventory = message.inventory.map(slot => Array.isArray(slot) ? null : slot)
          }
          await (this.turtles.getTurtle(turtleId).updateStatus(message))
        }
      } catch (err) {
        log.warn('Failed to update turtle status', { err: err.stack })
      }
    }
  \<close>
  The development below embeds that method: the regular expression as a backtracking
  matcher, JavaScript values with an explicit store for objects and arrays (the method
  assigns to a property of the object it is handed), exceptions as values, the registry
  \<^verbatim>\<open>this.turtles\<close> as a record of the answers it gives, and the promise the
  method returns as its settlement.
\<close>

subsection \<open>The regular expression \<^verbatim>\<open>/([^/]+)\/status$/\<close>\<close>

text \<open>
  \<^verbatim>\<open>String.prototype.match\<close> with a regular expression that has no \<^verbatim>\<open>g\<close> flag
  tries the start positions from left to right and answers with the first position at
  which the pattern matches. At one position the pattern is: \<^verbatim>\<open>[^/]+\<close>, greedy (the
  longest run of characters other than the slash, then shorter ones on backtracking, never
  empty), then the literal \<^verbatim>\<open>/status\<close>, then \<^verbatim>\<open>$\<close>, which without the \<^verbatim>\<open>m\<close> flag
  is the end of the input. The result of the model is capture group 1, the value of
  \<^verbatim>\<open>turtleIdMatch[1]\<close>; \<open>None\<close> is the \<^verbatim>\<open>null\<close> of a failed match.

  A \<open>char\<close> is a byte, and a topic is its UTF-8 form. The slash is one byte there and no
  part of any other character, as it is one code unit of JavaScript's UTF-16 and no part
  of any other, so the pattern cuts the same segment out of both.
\<close>

abbreviation notSlash :: "char \<Rightarrow> bool" where
  "notSlash c \<equiv> c \<noteq> CHR ''/''"

text \<open>\<open>backtrack k s\<close>: the group takes the first \<open>k\<close> characters of \<open>s\<close> (all of them
  other than the slash), then fewer; the rest of the input has to be \<^verbatim>\<open>/status\<close>.\<close>

fun backtrack :: "nat \<Rightarrow> string \<Rightarrow> string option" where
  "backtrack 0 s = None"
| "backtrack (Suc k) s =
     (if drop (Suc k) s = ''/status'' then Some (take (Suc k) s) else backtrack k s)"

definition match_here :: "string \<Rightarrow> string option" where
  "match_here s = backtrack (length (takeWhile notSlash s)) s"

fun topic_match :: "string \<Rightarrow> string option" where
  "topic_match [] = match_here []"
| "topic_match (c # cs) =
     (case match_here (c # cs) of Some g \<Rightarrow> Some g | None \<Rightarrow> topic_match cs)"

subsection \<open>JavaScript values and the store\<close>

text \<open>
  A value is a primitive or a reference to an array or an object in the store. Objects
  and arrays live in the store because the method assigns to \<^verbatim>\<open>message.inventory\<close>:
  the caller and the registry see that object through the same reference. The store is a
  list, an address is an index into it, and allocation appends. An object is its own data
  properties in insertion order; an array is its elements. Numbers are modelled as reals
  (the method only tests a number for truthiness, and \<^verbatim>\<open>NaN\<close>, the one falsy number
  that is not zero, is not the value of any real).
\<close>

type_synonym addr = nat

datatype jsval =
    JUndefined
  | JNull
  | JBool bool
  | JNum real
  | JStr string
  | JRef addr

datatype heapobj =
    HArray "jsval list"
  | HObject "(string \<times> jsval) list"

type_synonym heap = "heapobj list"

definition lookup :: "heap \<Rightarrow> addr \<Rightarrow> heapobj option" where
  "lookup h a = (if a < length h then Some (h ! a) else None)"

definition alloc :: "heap \<Rightarrow> heapobj \<Rightarrow> heap \<times> addr" where
  "alloc h ob = (h @ [ob], length h)"

text \<open>What is thrown: a \<^verbatim>\<open>TypeError\<close> raised by the language itself (reading a
  property of \<^verbatim>\<open>undefined\<close> or \<^verbatim>\<open>null\<close>, calling what is not a function), or any value
  thrown by the registry. A result is \<open>Inl\<close> of what was thrown or \<open>Inr\<close> of the value.\<close>

datatype exn = TypeError | Thrown jsval

text \<open>ToBoolean: \<^verbatim>\<open>undefined\<close>, \<^verbatim>\<open>null\<close>, \<^verbatim>\<open>false\<close>, zero and the empty string are
  falsy; every other value, every object and array included, is truthy.\<close>

fun truthy :: "jsval \<Rightarrow> bool" where
  "truthy JUndefined = False"
| "truthy JNull = False"
| "truthy (JBool b) = b"
| "truthy (JNum r) = (r \<noteq> 0)"
| "truthy (JStr s) = (s \<noteq> [])"
| "truthy (JRef a) = True"

text \<open>\<^verbatim>\<open>Array.isArray(slot)\<close>.\<close>

definition isArray :: "heap \<Rightarrow> jsval \<Rightarrow> bool" where
  "isArray h v =
     (case v of
        JRef a \<Rightarrow> (case lookup h a of Some (HArray xs) \<Rightarrow> True | _ \<Rightarrow> False)
      | _ \<Rightarrow> False)"

text \<open>
  Reading \<^verbatim>\<open>v.k\<close> for the two names the method reads off the message, \<^verbatim>\<open>online\<close> and
  \<^verbatim>\<open>inventory\<close>: a \<^verbatim>\<open>TypeError\<close> on \<^verbatim>\<open>undefined\<close> and \<^verbatim>\<open>null\<close>, the property's value
  on an object that has it, \<^verbatim>\<open>undefined\<close> otherwise (no prototype of a boolean, number,
  string, array or plain object defines either name).
\<close>

fun get_prop :: "heap \<Rightarrow> jsval \<Rightarrow> string \<Rightarrow> exn + jsval" where
  "get_prop h JUndefined k = Inl TypeError"
| "get_prop h JNull k = Inl TypeError"
| "get_prop h (JRef a) k =
     (case lookup h a of
        Some (HObject props) \<Rightarrow>
          Inr (case map_of props k of Some v \<Rightarrow> v | None \<Rightarrow> JUndefined)
      | _ \<Rightarrow> Inr JUndefined)"
| "get_prop h v k = Inr JUndefined"

text \<open>Assigning a property of an object: an existing property keeps its place, a new one
  goes last.\<close>

fun assign :: "string \<Rightarrow> jsval \<Rightarrow> (string \<times> jsval) list \<Rightarrow> (string \<times> jsval) list" where
  "assign k v [] = [(k, v)]"
| "assign k v ((k', v') # ps) =
     (if k' = k then (k, v) # ps else (k', v') # assign k v ps)"

text \<open>
  \<^verbatim>\<open>obj.k = v\<close>. The file is in strict mode, where the assignment throws on a primitive.
  On an array the property would be a named one, which an \<open>HArray\<close> does not record; the
  method never gets there, see \<open>truthy_online_is_object\<close>.
\<close>

definition set_prop :: "heap \<Rightarrow> jsval \<Rightarrow> string \<Rightarrow> jsval \<Rightarrow> exn + heap" where
  "set_prop h obj k v =
     (case obj of
        JRef a \<Rightarrow>
          (case lookup h a of
             Some (HObject props) \<Rightarrow> Inr (h[a := HObject (assign k v props)])
           | _ \<Rightarrow> Inr h)
      | _ \<Rightarrow> Inl TypeError)"

text \<open>The callback \<^verbatim>\<open>slot => Array.isArray(slot) ? null : slot\<close>.\<close>

definition sanitize_slot :: "heap \<Rightarrow> jsval \<Rightarrow> jsval" where
  "sanitize_slot h slot = (if isArray h slot then JNull else slot)"

text \<open>
  \<^verbatim>\<open>inventory.map(slot => ...)\<close>: on an array, \<^verbatim>\<open>Array.prototype.map\<close> allocates a new array
  of the callback's results and leaves the old one as it is. On anything else it is a
  \<^verbatim>\<open>TypeError\<close>: \<^verbatim>\<open>undefined\<close> and \<^verbatim>\<open>null\<close> have no properties, and on a boolean, a
  number, a string or an object of data \<^verbatim>\<open>map\<close> is not a function.
\<close>

definition inventory_map :: "heap \<Rightarrow> jsval \<Rightarrow> exn + (heap \<times> jsval)" where
  "inventory_map h inventory =
     (case inventory of
        JRef b \<Rightarrow>
          (case lookup h b of
             Some (HArray slots) \<Rightarrow>
               (case alloc h (HArray (map (sanitize_slot h) slots)) of
                  (h', n) \<Rightarrow> Inr (h', JRef n))
           | _ \<Rightarrow> Inl TypeError)
      | _ \<Rightarrow> Inl TypeError)"

text \<open>The statement
  \<^verbatim>\<open>if (message.online) { message.inventory = message.inventory.map(...) }\<close>.\<close>

definition sanitize_inventory :: "heap \<Rightarrow> jsval \<Rightarrow> exn + heap" where
  "sanitize_inventory h message =
     (case get_prop h message ''online'' of
        Inl e \<Rightarrow> Inl e
      | Inr online \<Rightarrow>
          if truthy online then
            (case get_prop h message ''inventory'' of
               Inl e \<Rightarrow> Inl e
             | Inr inventory \<Rightarrow>
                 (case inventory_map h inventory of
                    Inl e \<Rightarrow> Inl e
                  | Inr (h1, arr) \<Rightarrow> set_prop h1 message ''inventory'' arr))
          else Inr h)"

subsection \<open>The registry, the logger and the promise\<close>

text \<open>
  The registry \<^verbatim>\<open>this.turtles\<close>, a \<^verbatim>\<open>TurtleManager\<close> with the methods
  \<^verbatim>\<open>deleteTurtle\<close> and \<^verbatim>\<open>getTurtle\<close>, lives outside this repository. One run of the
  method calls each of its operations at most once, so the registry is given by the
  answer each operation gives: it throws, or it returns. What \<^verbatim>\<open>deleteTurtle\<close> and
  \<^verbatim>\<open>updateStatus\<close> return is a plain value or a promise, and a promise is given by how it
  settles (\<open>Pending\<close>: never). What \<^verbatim>\<open>getTurtle\<close> returns either has a method
  \<^verbatim>\<open>updateStatus\<close>, which is handed the message and sees the store, or has none
  (\<open>NoUpdateStatus\<close>: \<^verbatim>\<open>undefined\<close>, \<^verbatim>\<open>null\<close> or a value without that method), and
  calling it is a \<^verbatim>\<open>TypeError\<close>. What the registry itself writes to the objects it is
  handed is not part of the model: the store of a run is the store as the statements of
  the method leave it.
\<close>

datatype promise = Fulfilled jsval | Rejected exn | Pending

datatype retval = Val jsval | Prom promise

datatype turtle = Turtle "jsval \<Rightarrow> heap \<Rightarrow> exn + retval" | NoUpdateStatus

record registry =
  deleteTurtle :: "string \<Rightarrow> exn + retval"
  getTurtle :: "string \<Rightarrow> exn + turtle"

text \<open>The calls made on the registry, in order. \<open>UpdateStatus id m h\<close> is
  \<^verbatim>\<open>updateStatus(m)\<close> on what \<^verbatim>\<open>getTurtle(id)\<close> returned, with the store at that moment.\<close>

datatype call =
    DeleteTurtle string
  | GetTurtle string
  | UpdateStatus string jsval heap

datatype logentry =
    LogError string
  | LogVerbose string jsval string
  | LogWarn exn

text \<open>How a block of statements ends: normally, by a throw, or suspended for ever at an
  \<^verbatim>\<open>await\<close>.\<close>

datatype completion = Normal | Abrupt exn | Suspended

definition await :: "retval \<Rightarrow> completion" where
  "await r =
     (case r of
        Val v \<Rightarrow> Normal
      | Prom (Fulfilled v) \<Rightarrow> Normal
      | Prom (Rejected e) \<Rightarrow> Abrupt e
      | Prom Pending \<Rightarrow> Suspended)"

text \<open>\<^verbatim>\<open>err.stack\<close> in the handler of the \<^verbatim>\<open>catch\<close>: reading a property of what was
  caught throws when that is \<^verbatim>\<open>undefined\<close> or \<^verbatim>\<open>null\<close>.\<close>

fun err_stack :: "exn \<Rightarrow> exn + unit" where
  "err_stack (Thrown JUndefined) = Inl TypeError"
| "err_stack (Thrown JNull) = Inl TypeError"
| "err_stack e = Inr ()"

text \<open>How the promise that the \<^verbatim>\<open>async\<close> method returns settles.\<close>

datatype settlement = Resolves | Rejects exn | NeverSettles

text \<open>
  What one run of the method does: the registry calls and the log entries in order, the
  store it leaves, the values the registry returned that the method dropped without
  awaiting them, and the settlement of its promise.
\<close>

record run =
  calls :: "call list"
  logs :: "logentry list"
  store :: heap
  unawaited :: "retval list"
  settles :: settlement

subsection \<open>statusHandler\<close>

text \<open>The body of the \<^verbatim>\<open>try\<close>: registry calls, store, dropped values, completion.\<close>

definition try_block ::
  "registry \<Rightarrow> string \<Rightarrow> jsval \<Rightarrow> heap \<Rightarrow> call list \<times> heap \<times> retval list \<times> completion" where
  "try_block reg turtleId message h =
     (if message = JNull then
        (case deleteTurtle reg turtleId of
           Inl e \<Rightarrow> ([DeleteTurtle turtleId], h, [], Abrupt e)
         | Inr r \<Rightarrow> ([DeleteTurtle turtleId], h, [r], Normal))
      else
        (case sanitize_inventory h message of
           Inl e \<Rightarrow> ([], h, [], Abrupt e)
         | Inr h1 \<Rightarrow>
             (case getTurtle reg turtleId of
                Inl e \<Rightarrow> ([GetTurtle turtleId], h1, [], Abrupt e)
              | Inr NoUpdateStatus \<Rightarrow> ([GetTurtle turtleId], h1, [], Abrupt TypeError)
              | Inr (Turtle upd) \<Rightarrow>
                  (case upd message h1 of
                     Inl e \<Rightarrow>
                       ([GetTurtle turtleId, UpdateStatus turtleId message h1], h1, [],
                        Abrupt e)
                   | Inr r \<Rightarrow>
                       ([GetTurtle turtleId, UpdateStatus turtleId message h1], h1, [],
                        await r)))))"

definition statusHandler :: "registry \<Rightarrow> jsval \<Rightarrow> string \<Rightarrow> heap \<Rightarrow> run" where
  "statusHandler reg message topic h =
     (case topic_match topic of
        None \<Rightarrow>
          \<lparr>calls = [], logs = [LogError topic], store = h, unawaited = [],
           settles = Resolves\<rparr>
      | Some turtleId \<Rightarrow>
          (case try_block reg turtleId message h of
             (cs, h', us, Normal) \<Rightarrow>
               \<lparr>calls = cs, logs = [LogVerbose turtleId message topic], store = h',
                unawaited = us, settles = Resolves\<rparr>
           | (cs, h', us, Suspended) \<Rightarrow>
               \<lparr>calls = cs, logs = [LogVerbose turtleId message topic], store = h',
                unawaited = us, settles = NeverSettles\<rparr>
           | (cs, h', us, Abrupt err) \<Rightarrow>
               (case err_stack err of
                  Inl e \<Rightarrow>
                    \<lparr>calls = cs, logs = [LogVerbose turtleId message topic], store = h',
                     unawaited = us, settles = Rejects e\<rparr>
                | Inr u \<Rightarrow>
                    \<lparr>calls = cs, logs = [LogVerbose turtleId message topic, LogWarn err],
                     store = h', unawaited = us, settles = Resolves\<rparr>)))"

subsection \<open>Example registries and stores\<close>

text \<open>A registry on which every operation succeeds.\<close>

definition quiet_registry :: registry where
  "quiet_registry =
     \<lparr>deleteTurtle = (\<lambda>turtleId. Inr (Val JUndefined)),
      getTurtle = (\<lambda>turtleId. Inr (Turtle (\<lambda>m h. Inr (Prom (Fulfilled JUndefined)))))\<rparr>"

text \<open>A registry whose \<^verbatim>\<open>updateStatus\<close> returns \<^verbatim>\<open>Promise.reject()\<close>, a promise
  rejected with no reason, that is with \<^verbatim>\<open>undefined\<close>.\<close>

definition rejecting_registry :: registry where
  "rejecting_registry =
     \<lparr>deleteTurtle = (\<lambda>turtleId. Inr (Val JUndefined)),
      getTurtle =
        (\<lambda>turtleId. Inr (Turtle (\<lambda>m h. Inr (Prom (Rejected (Thrown JUndefined))))))\<rparr>"

text \<open>The store holding, at address 0, the message
  \<^verbatim>\<open>{ online: true, inventory: [ {name:"axe"}, [1,2], {name:"pick"} ] }\<close>.\<close>

definition axe_store :: heap where
  "axe_store =
     [HObject [(''online'', JBool True), (''inventory'', JRef 1)],
      HArray [JRef 2, JRef 3, JRef 4],
      HObject [(''name'', JStr ''axe'')],
      HArray [JNum 1, JNum 2],
      HObject [(''name'', JStr ''pick'')]]"

text \<open>The store holding, at address 0, the message
  \<^verbatim>\<open>{ online: false, inventory: [ [1,2] ] }\<close>.\<close>

definition offline_store :: heap where
  "offline_store =
     [HObject [(''online'', JBool False), (''inventory'', JRef 1)],
      HArray [JRef 2],
      HArray [JNum 1, JNum 2]]"

text \<open>The same message with \<^verbatim>\<open>online\<close> set to a value \<open>v\<close>.\<close>

definition online_store :: "jsval \<Rightarrow> heap" where
  "online_store v =
     [HObject [(''online'', v), (''inventory'', JRef 1)],
      HArray [JRef 2],
      HArray [JNum 1, JNum 2]]"

text \<open>The registry calls that change the registry: the deletion and the update.
  \<^verbatim>\<open>getTurtle\<close> is the lookup that hands out what is updated.\<close>

fun is_mutation :: "call \<Rightarrow> bool" where
  "is_mutation (DeleteTurtle turtleId) = True"
| "is_mutation (GetTurtle turtleId) = False"
| "is_mutation (UpdateStatus turtleId m h) = True"

section \<open>Properties\<close>

subsection \<open>What the regular expression captures\<close>

lemma drop_in_run:
  assumes "j < length (takeWhile notSlash s)"
  shows "drop j s \<noteq> ''/status''"
proof -
  have js: "j < length s"
    using assms length_takeWhile_le [of notSlash s] by simp
  have "s ! j = takeWhile notSlash s ! j"
    using assms by (simp add: takeWhile_nth)
  moreover have "takeWhile notSlash s ! j \<in> set (takeWhile notSlash s)"
    using assms by simp
  ultimately have "s ! j \<noteq> CHR ''/''"
    by (auto dest: set_takeWhileD)
  moreover have "drop j s = s ! j # drop (Suc j) s"
    using js by (simp add: Cons_nth_drop_Suc)
  ultimately show ?thesis by auto
qed

lemma backtrack_in_run:
  "k < length (takeWhile notSlash s) \<Longrightarrow> backtrack k s = None"
proof (induction k)
  case 0
  show ?case by simp
next
  case (Suc k)
  then show ?case using drop_in_run [of "Suc k" s] by simp
qed

text \<open>At one start position the group is the whole run of characters before the first
  slash: a shorter attempt leaves a character of the run where the slash has to be.\<close>

lemma match_here_eq:
  "match_here s =
     (if takeWhile notSlash s \<noteq> [] \<and> dropWhile notSlash s = ''/status''
      then Some (takeWhile notSlash s) else None)"
proof (cases "length (takeWhile notSlash s)")
  case 0
  then show ?thesis by (simp add: match_here_def)
next
  case (Suc k)
  have d: "drop (Suc k) s = dropWhile notSlash s"
    using Suc dropWhile_eq_drop [of notSlash s] by simp
  have t: "take (Suc k) s = takeWhile notSlash s"
    using Suc takeWhile_eq_take [of notSlash s] by simp
  have ne: "takeWhile notSlash s \<noteq> []"
    using Suc by auto
  have b: "backtrack k s = None"
    using Suc backtrack_in_run [of k s] by simp
  show ?thesis
    using Suc d t ne b by (simp add: match_here_def)
qed

lemma match_here_segment:
  assumes "g \<noteq> []" and "CHR ''/'' \<notin> set g"
  shows "match_here (g @ ''/status'') = Some g"
proof -
  have a: "\<And>x. x \<in> set g \<Longrightarrow> notSlash x"
    using assms by auto
  have "takeWhile notSlash (g @ ''/status'') = g"
    using a by simp
  moreover have "dropWhile notSlash (g @ ''/status'') = ''/status''"
    using a by simp
  ultimately show ?thesis
    using assms by (simp add: match_here_eq)
qed

lemma match_here_SomeD:
  assumes "match_here s = Some g"
  shows "s = g @ ''/status'' \<and> g \<noteq> [] \<and> CHR ''/'' \<notin> set g"
proof -
  from assms have g: "g = takeWhile notSlash s" and ne: "g \<noteq> []"
    and d: "dropWhile notSlash s = ''/status''"
    by (auto simp: match_here_eq split: if_splits)
  have "s = takeWhile notSlash s @ dropWhile notSlash s"
    by simp
  with g d have "s = g @ ''/status''"
    by simp
  moreover have "CHR ''/'' \<notin> set g"
    using g by (auto dest: set_takeWhileD)
  ultimately show ?thesis
    using ne by simp
qed

text \<open>The first start position that matches is the one right after the last slash before
  the segment (or the start of the topic).\<close>

lemma topic_match_after_slash:
  assumes "g \<noteq> []" and "CHR ''/'' \<notin> set g" and "pre = [] \<or> last pre = CHR ''/''"
  shows "topic_match (pre @ g @ ''/status'') = Some g"
  using assms
proof (induction pre)
  case Nil
  then obtain c cs where g: "g = c # cs"
    by (cases g) auto
  show ?case
    using match_here_segment [OF Nil(1,2)] by (simp add: g)
next
  case (Cons c pre)
  have "match_here ((c # pre) @ g @ ''/status'') = None"
  proof (rule ccontr)
    assume "match_here ((c # pre) @ g @ ''/status'') \<noteq> None"
    then obtain g' where "match_here ((c # pre) @ g @ ''/status'') = Some g'"
      by auto
    from match_here_SomeD [OF this]
    have e: "(c # pre) @ g @ ''/status'' = g' @ ''/status''" and ns: "CHR ''/'' \<notin> set g'"
      by auto
    from e have "g' = (c # pre) @ g"
      by simp
    moreover have "CHR ''/'' \<in> set (c # pre)"
      using Cons.prems(3) last_in_set [of "c # pre"] by simp
    ultimately show False
      using ns by auto
  qed
  moreover have "pre = [] \<or> last pre = CHR ''/''"
    using Cons.prems(3) by (auto split: if_splits)
  ultimately show ?case
    using Cons by simp
qed

lemma topic_match_SomeD:
  "topic_match t = Some g \<Longrightarrow>
   \<exists>pre. t = pre @ g @ ''/status'' \<and> g \<noteq> [] \<and> CHR ''/'' \<notin> set g"
proof (induction t)
  case Nil
  then show ?case
    using match_here_SomeD [of "[]" g] by simp
next
  case (Cons c cs)
  show ?case
  proof (cases "match_here (c # cs)")
    case None
    with Cons obtain pre where "cs = pre @ g @ ''/status'' \<and> g \<noteq> [] \<and> CHR ''/'' \<notin> set g"
      by auto
    then have "c # cs = (c # pre) @ g @ ''/status'' \<and> g \<noteq> [] \<and> CHR ''/'' \<notin> set g"
      by simp
    then show ?thesis by blast
  next
    case (Some g')
    with Cons.prems have "g' = g"
      by simp
    with Some match_here_SomeD [of "c # cs" g]
    have "c # cs = [] @ g @ ''/status'' \<and> g \<noteq> [] \<and> CHR ''/'' \<notin> set g"
      by simp
    then show ?thesis by blast
  qed
qed

text \<open>The expression fails exactly on the topics that do not end in a character other
  than the slash followed by \<^verbatim>\<open>/status\<close>.\<close>

lemma topic_match_None_iff:
  "topic_match t = None \<longleftrightarrow> \<not> (\<exists>pre c. t = pre @ c # ''/status'' \<and> c \<noteq> CHR ''/'')"
proof
  assume n: "topic_match t = None"
  show "\<not> (\<exists>pre c. t = pre @ c # ''/status'' \<and> c \<noteq> CHR ''/'')"
  proof
    assume "\<exists>pre c. t = pre @ c # ''/status'' \<and> c \<noteq> CHR ''/''"
    then obtain pre c where t: "t = pre @ c # ''/status''" and c: "c \<noteq> CHR ''/''"
      by blast
    define p where "p = rev (dropWhile notSlash (rev (pre @ [c])))"
    define g where "g = rev (takeWhile notSlash (rev (pre @ [c])))"
    have "rev (pre @ [c]) = rev g @ rev p"
      unfolding p_def g_def by simp
    then have "rev (pre @ [c]) = rev (p @ g)"
      by simp
    then have pg: "pre @ [c] = p @ g"
      by (simp only: rev_is_rev_conv)
    have "g \<noteq> []"
      using c by (simp add: g_def)
    moreover have "CHR ''/'' \<notin> set g"
      unfolding g_def by (auto dest: set_takeWhileD)
    moreover have "p = [] \<or> last p = CHR ''/''"
    proof (cases "dropWhile notSlash (rev (pre @ [c]))")
      case Nil
      then show ?thesis by (simp add: p_def)
    next
      case (Cons x xs)
      then have "\<not> notSlash x"
        using hd_dropWhile [of notSlash "rev (pre @ [c])"] by simp
      then show ?thesis
        using Cons by (simp add: p_def)
    qed
    ultimately have "topic_match (p @ g @ ''/status'') = Some g"
      by (rule topic_match_after_slash)
    moreover have "t = p @ g @ ''/status''"
    proof -
      have "t = (pre @ [c]) @ ''/status''"
        using t by simp
      also have "\<dots> = (p @ g) @ ''/status''"
        by (simp only: pg)
      finally show ?thesis by simp
    qed
    ultimately show False
      using n by simp
  qed
next
  assume no: "\<not> (\<exists>pre c. t = pre @ c # ''/status'' \<and> c \<noteq> CHR ''/'')"
  show "topic_match t = None"
  proof (rule ccontr)
    assume "topic_match t \<noteq> None"
    then obtain g where "topic_match t = Some g"
      by auto
    from topic_match_SomeD [OF this] obtain pre
      where t: "t = pre @ g @ ''/status''" and ne: "g \<noteq> []" and ns: "CHR ''/'' \<notin> set g"
      by blast
    have "last g \<in> set g"
      using ne by simp
    then have "last g \<noteq> CHR ''/''"
      using ns by auto
    moreover have "t = (pre @ butlast g) @ last g # ''/status''"
    proof -
      have "t = pre @ (butlast g @ [last g]) @ ''/status''"
        using t ne by simp
      then show ?thesis by simp
    qed
    ultimately show False
      using no by blast
  qed
qed

subsection \<open>The steps of the handler\<close>

lemma base_topic_match:
  assumes "ident \<noteq> []" and "CHR ''/'' \<notin> set ident"
  shows "topic_match (base @ ''/'' @ ident @ ''/status'') = Some ident"
proof -
  have "topic_match ((base @ ''/'') @ ident @ ''/status'') = Some ident"
    using assms by (intro topic_match_after_slash) simp_all
  then show ?thesis by simp
qed

lemma statusHandler_unmatched:
  "topic_match topic = None \<Longrightarrow>
   statusHandler reg message topic h =
     \<lparr>calls = [], logs = [LogError topic], store = h, unawaited = [], settles = Resolves\<rparr>"
  by (simp add: statusHandler_def)

lemma statusHandler_first_log:
  "topic_match topic = Some turtleId \<Longrightarrow>
   hd (logs (statusHandler reg message topic h)) = LogVerbose turtleId message topic"
  by (simp add: statusHandler_def split: prod.splits completion.splits sum.splits)

lemma statusHandler_calls:
  "calls (statusHandler reg message topic h) =
     (case topic_match topic of
        None \<Rightarrow> []
      | Some turtleId \<Rightarrow> fst (try_block reg turtleId message h))"
  by (simp add: statusHandler_def split: option.splits prod.splits completion.splits sum.splits)

lemma statusHandler_store:
  "store (statusHandler reg message topic h) =
     (case topic_match topic of
        None \<Rightarrow> h
      | Some turtleId \<Rightarrow> fst (snd (try_block reg turtleId message h)))"
  by (simp add: statusHandler_def split: option.splits prod.splits completion.splits sum.splits)

lemma try_block_delete:
  "fst (try_block reg turtleId JNull h) = [DeleteTurtle turtleId]"
  by (simp add: try_block_def split: sum.splits)

lemma try_block_update:
  assumes "message \<noteq> JNull" and "sanitize_inventory h message = Inr h1"
    and "getTurtle reg turtleId = Inr (Turtle upd)"
  shows "fst (try_block reg turtleId message h) =
           [GetTurtle turtleId, UpdateStatus turtleId message h1]"
  using assms by (simp add: try_block_def split: sum.splits)

lemma try_block_store:
  assumes "message \<noteq> JNull" and "sanitize_inventory h message = Inr h1"
  shows "fst (snd (try_block reg turtleId message h)) = h1"
  using assms by (simp add: try_block_def split: sum.splits turtle.splits)

text \<open>The calls of one run have one of four shapes.\<close>

lemma try_block_shape:
  "fst (try_block reg turtleId message h) = [] \<or>
   fst (try_block reg turtleId message h) = [DeleteTurtle turtleId] \<or>
   fst (try_block reg turtleId message h) = [GetTurtle turtleId] \<or>
   (\<exists>h1. fst (try_block reg turtleId message h) =
      [GetTurtle turtleId, UpdateStatus turtleId message h1])"
  by (simp add: try_block_def split: sum.splits turtle.splits)

text \<open>Only an object in the store has a truthy \<^verbatim>\<open>online\<close>, so the assignment to
  \<^verbatim>\<open>message.inventory\<close> is always one to a property of an object.\<close>

lemma truthy_online_is_object:
  assumes "get_prop h message ''online'' = Inr v" and "truthy v"
  shows "\<exists>a props. message = JRef a \<and> lookup h a = Some (HObject props)"
  using assms by (cases message) (auto split: option.splits heapobj.splits)

lemma sanitize_inventory_truthy:
  assumes "lookup h a = Some (HObject props)"
    and "map_of props ''online'' = Some v" and "truthy v"
    and "map_of props ''inventory'' = Some (JRef b)"
    and "lookup h b = Some (HArray slots)"
  shows "sanitize_inventory h (JRef a) =
           Inr (h[a := HObject (assign ''inventory'' (JRef (length h)) props)]
                 @ [HArray (map (sanitize_slot h) slots)])"
proof -
  have a: "a < length h"
    using assms(1) by (simp add: lookup_def split: if_splits)
  have "lookup (h @ [HArray (map (sanitize_slot h) slots)]) a = Some (HObject props)"
    using assms(1) a by (simp add: lookup_def nth_append split: if_splits)
  then show ?thesis
    using assms a
    by (simp add: sanitize_inventory_def inventory_map_def alloc_def set_prop_def
        list_update_append)
qed

lemma sanitize_inventory_falsy:
  assumes "get_prop h message ''online'' = Inr v" and "\<not> truthy v"
  shows "sanitize_inventory h message = Inr h"
  using assms by (simp add: sanitize_inventory_def)

lemma map_of_assign:
  "map_of (assign k v ps) k = Some v"
  by (induction ps) auto

text \<open>The store after the sanitization, read back.\<close>

lemma sanitized_store:
  assumes "lookup h a = Some (HObject props)" and "lookup h b = Some (HArray slots)"
    and "h1 = h[a := HObject (assign ''inventory'' (JRef (length h)) props)]
                @ [HArray (map (sanitize_slot h) slots)]"
  shows "get_prop h1 (JRef a) ''inventory'' = Inr (JRef (length h))"
    and "lookup h1 (length h) = Some (HArray (map (sanitize_slot h) slots))"
    and "lookup h1 b = Some (HArray slots)"
    and "c < length h \<Longrightarrow> c \<noteq> a \<Longrightarrow> lookup h1 c = lookup h c"
proof -
  have a: "a < length h"
    using assms(1) by (simp add: lookup_def split: if_splits)
  have b: "b < length h"
    using assms(2) by (simp add: lookup_def split: if_splits)
  have ab: "a \<noteq> b"
    using assms(1,2) by auto
  show "get_prop h1 (JRef a) ''inventory'' = Inr (JRef (length h))"
    using a by (simp add: assms(3) lookup_def nth_append map_of_assign)
  show "lookup h1 (length h) = Some (HArray (map (sanitize_slot h) slots))"
    by (simp add: assms(3) lookup_def nth_append)
  show "lookup h1 b = Some (HArray slots)"
    using assms(2) b ab by (simp add: assms(3) lookup_def nth_append)
  show "c < length h \<Longrightarrow> c \<noteq> a \<Longrightarrow> lookup h1 c = lookup h c"
    by (simp add: assms(3) lookup_def nth_append)
qed

text \<open>How the promise of the handler settles, read off the completion of the \<^verbatim>\<open>try\<close>
  block.\<close>

lemma statusHandler_settles:
  "settles (statusHandler reg message topic h) =
     (case topic_match topic of
        None \<Rightarrow> Resolves
      | Some turtleId \<Rightarrow>
          (case snd (snd (snd (try_block reg turtleId message h))) of
             Normal \<Rightarrow> Resolves
           | Suspended \<Rightarrow> NeverSettles
           | Abrupt err \<Rightarrow> (case err_stack err of Inl e \<Rightarrow> Rejects e | Inr u \<Rightarrow> Resolves)))"
  by (simp add: statusHandler_def split: option.splits prod.splits completion.splits sum.splits)

lemma statusHandler_logs:
  "logs (statusHandler reg message topic h) =
     (case topic_match topic of
        None \<Rightarrow> [LogError topic]
      | Some turtleId \<Rightarrow>
          (case snd (snd (snd (try_block reg turtleId message h))) of
             Normal \<Rightarrow> [LogVerbose turtleId message topic]
           | Suspended \<Rightarrow> [LogVerbose turtleId message topic]
           | Abrupt err \<Rightarrow>
               (case err_stack err of
                  Inl e \<Rightarrow> [LogVerbose turtleId message topic]
                | Inr u \<Rightarrow> [LogVerbose turtleId message topic, LogWarn err])))"
  by (simp add: statusHandler_def split: option.splits prod.splits completion.splits sum.splits)

lemma statusHandler_unawaited:
  "unawaited (statusHandler reg message topic h) =
     (case topic_match topic of
        None \<Rightarrow> []
      | Some turtleId \<Rightarrow> fst (snd (snd (try_block reg turtleId message h))))"
  by (simp add: statusHandler_def split: option.splits prod.splits completion.splits sum.splits)

text \<open>What the registry throws, or rejects with, reaches the \<^verbatim>\<open>catch\<close>.\<close>

lemma try_block_registry_throw:
  assumes "message \<noteq> JNull" and "sanitize_inventory h message = Inr h1"
    and "getTurtle reg turtleId = Inl err \<or>
         (\<exists>upd. getTurtle reg turtleId = Inr (Turtle upd) \<and>
            (upd message h1 = Inl err \<or> upd message h1 = Inr (Prom (Rejected err))))"
  shows "snd (snd (snd (try_block reg turtleId message h))) = Abrupt err"
  using assms by (auto simp: try_block_def await_def)

text \<open>
  A thrown value whose \<^verbatim>\<open>stack\<close> can be read, that is any but \<^verbatim>\<open>undefined\<close> and
  \<^verbatim>\<open>null\<close>, is logged as a warning and swallowed.
\<close>

lemma registry_throw_swallowed:
  assumes "topic_match topic = Some turtleId"
    and "message \<noteq> JNull" and "sanitize_inventory h message = Inr h1"
    and "getTurtle reg turtleId = Inl err \<or>
         (\<exists>upd. getTurtle reg turtleId = Inr (Turtle upd) \<and>
            (upd message h1 = Inl err \<or> upd message h1 = Inr (Prom (Rejected err))))"
    and "err_stack err = Inr ()"
  shows "settles (statusHandler reg message topic h) = Resolves"
    and "logs (statusHandler reg message topic h) =
           [LogVerbose turtleId message topic, LogWarn err]"
  using assms(1,5) try_block_registry_throw [OF assms(2,3,4)]
  by (simp_all add: statusHandler_settles statusHandler_logs)

subsection \<open>The claims\<close>

text \<open>
  C1. For every topic of the shape \<^verbatim>\<open><base>/<id>/status\<close>, where \<^verbatim>\<open><id>\<close> is a
  path segment (not empty, without a slash), the handler extracts as the device
  identifier exactly \<^verbatim>\<open><id>\<close>, the segment between the last two slashes before
  \<^verbatim>\<open>status\<close>: that is what the regular expression captures and what the handler works
  with from its first log entry on. For \<^verbatim>\<open>quayos/turtles/t42/status\<close> it is \<^verbatim>\<open>t42\<close>.
\<close>

theorem statusHandler_extracts_turtleId:
  assumes "ident \<noteq> []" and "CHR ''/'' \<notin> set ident"
  shows "topic_match (base @ ''/'' @ ident @ ''/status'') = Some ident \<and>
         hd (logs (statusHandler reg message (base @ ''/'' @ ident @ ''/status'') h)) =
           LogVerbose ident message (base @ ''/'' @ ident @ ''/status'')"
  using base_topic_match [OF assms, of base]
  by (simp add: statusHandler_first_log)

theorem statusHandler_extracts_t42:
  "topic_match ''quayos/turtles/t42/status'' = Some ''t42'' \<and>
   hd (logs (statusHandler quiet_registry JNull ''quayos/turtles/t42/status'' [])) =
     LogVerbose ''t42'' JNull ''quayos/turtles/t42/status''"
  using statusHandler_extracts_turtleId
    [where ident = "''t42''" and base = "''quayos/turtles''" and reg = quiet_registry
       and message = JNull and h = "[]"]
  by simp

text \<open>
  C2, as claimed: on every topic not of the shape \<^verbatim>\<open><base>/<id>/status\<close>, the topics
  \<^verbatim>\<open>quayos/turtles/status\<close> and \<^verbatim>\<open>other/topic\<close> among them, the handler makes no
  registry call. The handler does not know the base topic: on \<^verbatim>\<open>quayos/turtles/status\<close>
  the expression captures \<^verbatim>\<open>turtles\<close>, and a \<^verbatim>\<open>null\<close> payload deletes that device.
\<close>

theorem unmatched_topic_counterexample:
  "calls (statusHandler quiet_registry JNull ''quayos/turtles/status'' []) =
     [DeleteTurtle ''turtles'']"
  by (simp add: statusHandler_def try_block_def match_here_def quiet_registry_def)

text \<open>
  C2, amended: on every topic that does not end in a character other than the slash
  followed by \<^verbatim>\<open>/status\<close> (such as \<^verbatim>\<open>other/topic\<close>), the handler makes no registry call,
  leaves the store as it is, logs one error and its promise resolves.
\<close>

theorem statusHandler_discards_unmatched:
  assumes "\<not> (\<exists>pre c. topic = pre @ c # ''/status'' \<and> c \<noteq> CHR ''/'')"
  shows "statusHandler reg message topic h =
           \<lparr>calls = [], logs = [LogError topic], store = h, unawaited = [],
            settles = Resolves\<rparr>"
  using assms by (simp add: statusHandler_unmatched topic_match_None_iff)

theorem statusHandler_discards_other_topic:
  "statusHandler quiet_registry JNull ''other/topic'' [] =
     \<lparr>calls = [], logs = [LogError ''other/topic''], store = [], unawaited = [],
      settles = Resolves\<rparr>"
proof -
  have "topic_match ''other/topic'' = None"
    by (simp add: match_here_def)
  then have "\<not> (\<exists>pre c. ''other/topic'' = pre @ c # ''/status'' \<and> c \<noteq> CHR ''/'')"
    by (rule iffD1 [OF topic_match_None_iff])
  then show ?thesis
    by (rule statusHandler_discards_unmatched)
qed

text \<open>
  C3. If \<^verbatim>\<open>getTurtle\<close> or \<^verbatim>\<open>updateStatus\<close> throws, the handler is to resolve and never
  to reject. The \<^verbatim>\<open>catch\<close> reads \<^verbatim>\<open>err.stack\<close>, which itself throws when what was caught
  is \<^verbatim>\<open>undefined\<close> or \<^verbatim>\<open>null\<close>: with a registry whose \<^verbatim>\<open>updateStatus\<close> returns a
  promise rejected without a reason, the handler's promise rejects with a
  \<^verbatim>\<open>TypeError\<close>, for the message \<^verbatim>\<open>{ online: false, inventory: [ [1,2] ] }\<close> on the topic
  \<^verbatim>\<open>quayos/turtles/t42/status\<close>, and no warning is logged.
\<close>

theorem rejection_without_reason_propagates:
  "settles (statusHandler rejecting_registry (JRef 0) ''quayos/turtles/t42/status''
      offline_store) = Rejects TypeError \<and>
   logs (statusHandler rejecting_registry (JRef 0) ''quayos/turtles/t42/status''
      offline_store) = [LogVerbose ''t42'' (JRef 0) ''quayos/turtles/t42/status'']"
  by (simp add: statusHandler_def try_block_def match_here_def rejecting_registry_def
      offline_store_def sanitize_inventory_def lookup_def await_def)

text \<open>
  C4. For every payload object whose \<^verbatim>\<open>online\<close> is \<^verbatim>\<open>true\<close> (and whose \<^verbatim>\<open>inventory\<close> is
  an array), the handler replaces in the inventory every slot that is an array by
  \<^verbatim>\<open>null\<close>, leaves every other slot as it is, and hands the payload with that inventory
  to \<^verbatim>\<open>updateStatus\<close>: in the store \<open>h1\<close> that the update sees, \<^verbatim>\<open>message.inventory\<close> is an
  array of the sanitized slots, and every object and array that was there before, the
  message apart, is unchanged. With the inventory
  \<^verbatim>\<open>[ {name:"axe"}, [1,2], {name:"pick"} ]\<close> the update sees
  \<^verbatim>\<open>[ {name:"axe"}, null, {name:"pick"} ]\<close>.
\<close>

theorem online_true_sanitizes_inventory:
  assumes "topic_match topic = Some turtleId"
    and "lookup h a = Some (HObject props)"
    and "map_of props ''online'' = Some (JBool True)"
    and "map_of props ''inventory'' = Some (JRef b)"
    and "lookup h b = Some (HArray slots)"
    and "getTurtle reg turtleId = Inr (Turtle upd)"
  shows "\<exists>h1. calls (statusHandler reg (JRef a) topic h) =
                [GetTurtle turtleId, UpdateStatus turtleId (JRef a) h1] \<and>
              get_prop h1 (JRef a) ''inventory'' = Inr (JRef (length h)) \<and>
              lookup h1 (length h) =
                Some (HArray (map (\<lambda>slot. if isArray h slot then JNull else slot) slots)) \<and>
              (\<forall>c. c < length h \<and> c \<noteq> a \<longrightarrow> lookup h1 c = lookup h c)"
proof -
  define h1 where "h1 = h[a := HObject (assign ''inventory'' (JRef (length h)) props)]
                          @ [HArray (map (sanitize_slot h) slots)]"
  have s: "sanitize_inventory h (JRef a) = Inr h1"
    unfolding h1_def using assms(2,3) _ assms(4,5)
    by (rule sanitize_inventory_truthy) simp
  have "calls (statusHandler reg (JRef a) topic h) =
          [GetTurtle turtleId, UpdateStatus turtleId (JRef a) h1]"
    using assms(1) try_block_update [OF _ s assms(6)]
    by (simp add: statusHandler_calls)
  moreover have "map (sanitize_slot h) slots =
      map (\<lambda>slot. if isArray h slot then JNull else slot) slots"
    by (simp add: sanitize_slot_def)
  ultimately show ?thesis
    using sanitized_store [OF assms(2,5) h1_def] by auto
qed

theorem online_true_sanitizes_axe_inventory:
  "\<exists>h1. calls (statusHandler quiet_registry (JRef 0) ''quayos/turtles/t42/status'' axe_store) =
          [GetTurtle ''t42'', UpdateStatus ''t42'' (JRef 0) h1] \<and>
        get_prop h1 (JRef 0) ''inventory'' = Inr (JRef 5) \<and>
        lookup h1 5 = Some (HArray [JRef 2, JNull, JRef 4]) \<and>
        lookup h1 2 = Some (HObject [(''name'', JStr ''axe'')]) \<and>
        lookup h1 4 = Some (HObject [(''name'', JStr ''pick'')])"
proof -
  have m: "topic_match ''quayos/turtles/t42/status'' = Some ''t42''"
    by (simp add: match_here_def)
  have g: "getTurtle quiet_registry ''t42'' =
      Inr (Turtle (\<lambda>m h. Inr (Prom (Fulfilled JUndefined))))"
    by (simp add: quiet_registry_def)
  have o: "lookup axe_store 0 =
      Some (HObject [(''online'', JBool True), (''inventory'', JRef 1)])"
    by (simp add: axe_store_def lookup_def)
  have i: "lookup axe_store 1 = Some (HArray [JRef 2, JRef 3, JRef 4])"
    by (simp add: axe_store_def lookup_def)
  from online_true_sanitizes_inventory [OF m o _ _ i g]
  obtain h1 where
    c: "calls (statusHandler quiet_registry (JRef 0) ''quayos/turtles/t42/status'' axe_store) =
          [GetTurtle ''t42'', UpdateStatus ''t42'' (JRef 0) h1]"
    and p: "get_prop h1 (JRef 0) ''inventory'' = Inr (JRef (length axe_store))"
    and n: "lookup h1 (length axe_store) =
          Some (HArray (map (\<lambda>slot. if isArray axe_store slot then JNull else slot)
            [JRef 2, JRef 3, JRef 4]))"
    and f: "\<forall>c. c < length axe_store \<and> c \<noteq> 0 \<longrightarrow> lookup h1 c = lookup axe_store c"
    by auto
  have l: "length axe_store = 5"
    by (simp add: axe_store_def)
  have "lookup h1 5 = Some (HArray [JRef 2, JNull, JRef 4])"
    using n by (simp add: l) (simp add: isArray_def lookup_def axe_store_def)
  moreover have "lookup h1 2 = Some (HObject [(''name'', JStr ''axe'')])"
    using f l by (simp add: lookup_def axe_store_def)
  moreover have "lookup h1 4 = Some (HObject [(''name'', JStr ''pick'')])"
    using f l by (simp add: lookup_def axe_store_def)
  ultimately show ?thesis
    using c p l by auto
qed

text \<open>
  C5. Given the payload \<^verbatim>\<open>null\<close> and a valid topic for the identifier \<open>X\<close>, the
  registry's \<^verbatim>\<open>deleteTurtle\<close> is called with \<open>X\<close> exactly once and no other registry
  operation is called, whatever the registry answers.
\<close>

theorem null_payload_deletes_once:
  assumes "X \<noteq> []" and "CHR ''/'' \<notin> set X"
  shows "calls (statusHandler reg JNull (base @ ''/'' @ X @ ''/status'') h) = [DeleteTurtle X]"
  using base_topic_match [OF assms, of base]
  by (simp add: statusHandler_calls try_block_delete)

theorem null_payload_deletes_t42:
  "calls (statusHandler quiet_registry JNull ''quayos/turtles/t42/status'' []) =
     [DeleteTurtle ''t42'']"
  using null_payload_deletes_once
    [where X = "''t42''" and base = "''quayos/turtles''" and reg = quiet_registry and h = "[]"]
  by simp

text \<open>
  C6. For every payload object whose \<^verbatim>\<open>online\<close> is \<^verbatim>\<open>false\<close>, the payload is handed to
  \<^verbatim>\<open>updateStatus\<close> with the store exactly as the handler received it: no slot is replaced
  and nothing is allocated. The payload \<^verbatim>\<open>{ online: false, inventory: [ [1,2] ] }\<close> keeps
  the inventory \<^verbatim>\<open>[ [1,2] ]\<close>.
\<close>

theorem offline_inventory_unmodified:
  assumes "topic_match topic = Some turtleId"
    and "lookup h a = Some (HObject props)"
    and "map_of props ''online'' = Some (JBool False)"
    and "getTurtle reg turtleId = Inr (Turtle upd)"
  shows "calls (statusHandler reg (JRef a) topic h) =
           [GetTurtle turtleId, UpdateStatus turtleId (JRef a) h] \<and>
         store (statusHandler reg (JRef a) topic h) = h"
proof -
  have "get_prop h (JRef a) ''online'' = Inr (JBool False)"
    using assms(2,3) by simp
  then have s: "sanitize_inventory h (JRef a) = Inr h"
    by (rule sanitize_inventory_falsy) simp
  show ?thesis
    using assms(1) try_block_update [OF _ s assms(4)] try_block_store [OF _ s]
    by (simp add: statusHandler_calls statusHandler_store)
qed

theorem offline_inventory_unmodified_example:
  "calls (statusHandler quiet_registry (JRef 0) ''quayos/turtles/t42/status'' offline_store) =
     [GetTurtle ''t42'', UpdateStatus ''t42'' (JRef 0) offline_store] \<and>
   store (statusHandler quiet_registry (JRef 0) ''quayos/turtles/t42/status'' offline_store) =
     offline_store \<and>
   get_prop offline_store (JRef 0) ''inventory'' = Inr (JRef 1) \<and>
   lookup offline_store 1 = Some (HArray [JRef 2]) \<and>
   lookup offline_store 2 = Some (HArray [JNum 1, JNum 2])"
proof -
  have m: "topic_match ''quayos/turtles/t42/status'' = Some ''t42''"
    by (simp add: match_here_def)
  have g: "getTurtle quiet_registry ''t42'' =
      Inr (Turtle (\<lambda>m h. Inr (Prom (Fulfilled JUndefined))))"
    by (simp add: quiet_registry_def)
  have o: "lookup offline_store 0 =
      Some (HObject [(''online'', JBool False), (''inventory'', JRef 1)])"
    by (simp add: offline_store_def lookup_def)
  from offline_inventory_unmodified [OF m o _ g]
  have "calls (statusHandler quiet_registry (JRef 0) ''quayos/turtles/t42/status''
           offline_store) = [GetTurtle ''t42'', UpdateStatus ''t42'' (JRef 0) offline_store] \<and>
        store (statusHandler quiet_registry (JRef 0) ''quayos/turtles/t42/status''
           offline_store) = offline_store"
    by simp
  moreover have "get_prop offline_store (JRef 0) ''inventory'' = Inr (JRef 1)"
    by (simp add: offline_store_def lookup_def)
  moreover have "lookup offline_store 1 = Some (HArray [JRef 2])"
    by (simp add: offline_store_def lookup_def)
  moreover have "lookup offline_store 2 = Some (HArray [JNum 1, JNum 2])"
    by (simp add: offline_store_def lookup_def)
  ultimately show ?thesis by simp
qed

text \<open>
  C7. One run of the handler makes zero or one registry mutation, never more: its calls
  are none, or one \<^verbatim>\<open>deleteTurtle\<close>, or one \<^verbatim>\<open>getTurtle\<close>, or one \<^verbatim>\<open>getTurtle\<close> and then one
  \<^verbatim>\<open>updateStatus\<close>; at most one of them is a deletion or an update.
\<close>

theorem at_most_one_mutation:
  "length (filter is_mutation (calls (statusHandler reg message topic h))) \<le> 1 \<and>
   (calls (statusHandler reg message topic h) = [] \<or>
    (\<exists>turtleId. calls (statusHandler reg message topic h) = [DeleteTurtle turtleId]) \<or>
    (\<exists>turtleId. calls (statusHandler reg message topic h) = [GetTurtle turtleId]) \<or>
    (\<exists>turtleId h1. calls (statusHandler reg message topic h) =
       [GetTurtle turtleId, UpdateStatus turtleId message h1]))"
proof (cases "topic_match topic")
  case None
  then show ?thesis by (simp add: statusHandler_calls)
next
  case (Some turtleId)
  then have c: "calls (statusHandler reg message topic h) =
      fst (try_block reg turtleId message h)"
    by (simp add: statusHandler_calls)
  from try_block_shape [of reg turtleId message h] show ?thesis
    unfolding c by (elim disjE exE) simp_all
qed

text \<open>
  C8. In the branch of the \<^verbatim>\<open>null\<close> payload, what \<^verbatim>\<open>deleteTurtle\<close> returns is dropped
  without an \<^verbatim>\<open>await\<close>. If it returns a promise that rejects, the rejection never reaches
  the \<^verbatim>\<open>catch\<close>: no warning is logged, the promise stays among the values the handler
  dropped, and the handler's own promise resolves. A throw of \<^verbatim>\<open>deleteTurtle\<close> itself
  does reach the \<^verbatim>\<open>catch\<close>: it is logged as a warning and swallowed (for a thrown value
  whose \<^verbatim>\<open>stack\<close> can be read).
\<close>

theorem delete_not_awaited:
  assumes "topic_match topic = Some turtleId"
  shows "(deleteTurtle reg turtleId = Inr (Prom (Rejected e)) \<longrightarrow>
            statusHandler reg JNull topic h =
              \<lparr>calls = [DeleteTurtle turtleId], logs = [LogVerbose turtleId JNull topic],
               store = h, unawaited = [Prom (Rejected e)], settles = Resolves\<rparr>) \<and>
         (deleteTurtle reg turtleId = Inl err \<and> err_stack err = Inr () \<longrightarrow>
            statusHandler reg JNull topic h =
              \<lparr>calls = [DeleteTurtle turtleId],
               logs = [LogVerbose turtleId JNull topic, LogWarn err],
               store = h, unawaited = [], settles = Resolves\<rparr>)"
  using assms by (simp add: statusHandler_def try_block_def)

theorem delete_not_awaited_example:
  "statusHandler
     \<lparr>deleteTurtle = (\<lambda>turtleId. Inr (Prom (Rejected (Thrown (JStr ''gone''))))),
      getTurtle = (\<lambda>turtleId. Inr NoUpdateStatus)\<rparr>
     JNull ''quayos/turtles/t42/status'' [] =
     \<lparr>calls = [DeleteTurtle ''t42''],
      logs = [LogVerbose ''t42'' JNull ''quayos/turtles/t42/status''],
      store = [], unawaited = [Prom (Rejected (Thrown (JStr ''gone'')))],
      settles = Resolves\<rparr> \<and>
   statusHandler
     \<lparr>deleteTurtle = (\<lambda>turtleId. Inl (Thrown (JStr ''gone''))),
      getTurtle = (\<lambda>turtleId. Inr NoUpdateStatus)\<rparr>
     JNull ''quayos/turtles/t42/status'' [] =
     \<lparr>calls = [DeleteTurtle ''t42''],
      logs = [LogVerbose ''t42'' JNull ''quayos/turtles/t42/status'',
              LogWarn (Thrown (JStr ''gone''))],
      store = [], unawaited = [], settles = Resolves\<rparr>"
proof -
  have m: "topic_match ''quayos/turtles/t42/status'' = Some ''t42''"
    by (simp add: match_here_def)
  show ?thesis
    using
      delete_not_awaited [OF m,
        where reg = "\<lparr>deleteTurtle = (\<lambda>turtleId. Inr (Prom (Rejected (Thrown (JStr ''gone''))))),
                      getTurtle = (\<lambda>turtleId. Inr NoUpdateStatus)\<rparr>"
          and e = "Thrown (JStr ''gone'')" and h = "[]"]
      delete_not_awaited [OF m,
        where reg = "\<lparr>deleteTurtle = (\<lambda>turtleId. Inl (Thrown (JStr ''gone''))),
                      getTurtle = (\<lambda>turtleId. Inr NoUpdateStatus)\<rparr>"
          and err = "Thrown (JStr ''gone'')" and h = "[]"]
    by simp
qed

text \<open>
  C9. The sanitization changes the caller's object in place. For every payload object
  with a truthy \<^verbatim>\<open>online\<close> (and an array as \<^verbatim>\<open>inventory\<close>), the handler assigns the new
  array to the \<^verbatim>\<open>inventory\<close> of the object it was handed: in the store the handler
  leaves, the \<^verbatim>\<open>inventory\<close> of that object is the sanitized array and no longer the
  array it was, whatever the registry answers. The update is called with the reference
  the handler received, on that store.
\<close>

theorem sanitization_in_place:
  assumes "topic_match topic = Some turtleId"
    and "lookup h a = Some (HObject props)"
    and "map_of props ''online'' = Some v" and "truthy v"
    and "map_of props ''inventory'' = Some (JRef b)"
    and "lookup h b = Some (HArray slots)"
  shows "get_prop h (JRef a) ''inventory'' = Inr (JRef b) \<and>
         get_prop (store (statusHandler reg (JRef a) topic h)) (JRef a) ''inventory'' =
           Inr (JRef (length h)) \<and>
         JRef (length h) \<noteq> JRef b \<and>
         lookup (store (statusHandler reg (JRef a) topic h)) (length h) =
           Some (HArray (map (sanitize_slot h) slots)) \<and>
         lookup (store (statusHandler reg (JRef a) topic h)) b = Some (HArray slots) \<and>
         (\<forall>upd. getTurtle reg turtleId = Inr (Turtle upd) \<longrightarrow>
            calls (statusHandler reg (JRef a) topic h) =
              [GetTurtle turtleId,
               UpdateStatus turtleId (JRef a) (store (statusHandler reg (JRef a) topic h))])"
proof -
  define h1 where "h1 = h[a := HObject (assign ''inventory'' (JRef (length h)) props)]
                          @ [HArray (map (sanitize_slot h) slots)]"
  have s: "sanitize_inventory h (JRef a) = Inr h1"
    unfolding h1_def using assms(2,3,4,5,6) by (rule sanitize_inventory_truthy)
  have st: "store (statusHandler reg (JRef a) topic h) = h1"
    using assms(1) try_block_store [OF _ s] by (simp add: statusHandler_store)
  have c: "\<forall>upd. getTurtle reg turtleId = Inr (Turtle upd) \<longrightarrow>
      calls (statusHandler reg (JRef a) topic h) =
        [GetTurtle turtleId, UpdateStatus turtleId (JRef a) h1]"
    using assms(1) try_block_update [OF _ s] by (simp add: statusHandler_calls)
  have b: "b < length h"
    using assms(6) by (simp add: lookup_def split: if_splits)
  have "get_prop h (JRef a) ''inventory'' = Inr (JRef b)"
    using assms(2,5) by simp
  then show ?thesis
    using sanitized_store(1,2,3) [OF assms(2,6) h1_def] b c by (simp add: st)
qed

theorem sanitization_in_place_example:
  "get_prop axe_store (JRef 0) ''inventory'' = Inr (JRef 1) \<and>
   get_prop (store (statusHandler rejecting_registry (JRef 0) ''quayos/turtles/t42/status''
      axe_store)) (JRef 0) ''inventory'' = Inr (JRef 5) \<and>
   lookup (store (statusHandler rejecting_registry (JRef 0) ''quayos/turtles/t42/status''
      axe_store)) 5 = Some (HArray [JRef 2, JNull, JRef 4]) \<and>
   lookup (store (statusHandler rejecting_registry (JRef 0) ''quayos/turtles/t42/status''
      axe_store)) 1 = Some (HArray [JRef 2, JRef 3, JRef 4]) \<and>
   calls (statusHandler rejecting_registry (JRef 0) ''quayos/turtles/t42/status'' axe_store) =
     [GetTurtle ''t42'',
      UpdateStatus ''t42'' (JRef 0)
        (store (statusHandler rejecting_registry (JRef 0) ''quayos/turtles/t42/status''
           axe_store))]"
proof -
  have m: "topic_match ''quayos/turtles/t42/status'' = Some ''t42''"
    by (simp add: match_here_def)
  have o: "lookup axe_store 0 =
      Some (HObject [(''online'', JBool True), (''inventory'', JRef 1)])"
    by (simp add: axe_store_def lookup_def)
  have i: "lookup axe_store 1 = Some (HArray [JRef 2, JRef 3, JRef 4])"
    by (simp add: axe_store_def lookup_def)
  have l: "length axe_store = 5"
    by (simp add: axe_store_def)
  have sl: "sanitize_slot axe_store (JRef 2) = JRef 2"
    "sanitize_slot axe_store (JRef 3) = JNull"
    "sanitize_slot axe_store (JRef 4) = JRef 4"
    by (simp_all add: sanitize_slot_def isArray_def lookup_def axe_store_def)
  have g: "getTurtle rejecting_registry ''t42'' =
      Inr (Turtle (\<lambda>m h. Inr (Prom (Rejected (Thrown JUndefined)))))"
    by (simp add: rejecting_registry_def)
  show ?thesis
    using sanitization_in_place [OF m o _ _ _ i, where v = "JBool True" and reg = rejecting_registry]
      g
    by (simp add: l sl)
qed

text \<open>
  C10. The sanitization is done whenever \<^verbatim>\<open>online\<close> is truthy, not only when it is the
  boolean \<^verbatim>\<open>true\<close>: for every payload object whose \<^verbatim>\<open>online\<close> is any truthy value, the
  number 1 or a non-empty string for example (and whose \<^verbatim>\<open>inventory\<close> is an array), the
  store that \<^verbatim>\<open>updateStatus\<close> sees has the array slots of the inventory replaced by
  \<^verbatim>\<open>null\<close>.
\<close>

theorem truthy_online_sanitizes_inventory:
  assumes "topic_match topic = Some turtleId"
    and "lookup h a = Some (HObject props)"
    and "map_of props ''online'' = Some v" and "truthy v"
    and "map_of props ''inventory'' = Some (JRef b)"
    and "lookup h b = Some (HArray slots)"
    and "getTurtle reg turtleId = Inr (Turtle upd)"
  shows "\<exists>h1. calls (statusHandler reg (JRef a) topic h) =
                [GetTurtle turtleId, UpdateStatus turtleId (JRef a) h1] \<and>
              get_prop h1 (JRef a) ''inventory'' = Inr (JRef (length h)) \<and>
              lookup h1 (length h) =
                Some (HArray (map (\<lambda>slot. if isArray h slot then JNull else slot) slots))"
proof -
  define h1 where "h1 = h[a := HObject (assign ''inventory'' (JRef (length h)) props)]
                          @ [HArray (map (sanitize_slot h) slots)]"
  have s: "sanitize_inventory h (JRef a) = Inr h1"
    unfolding h1_def using assms(2,3,4,5,6) by (rule sanitize_inventory_truthy)
  have "calls (statusHandler reg (JRef a) topic h) =
          [GetTurtle turtleId, UpdateStatus turtleId (JRef a) h1]"
    using assms(1) try_block_update [OF _ s assms(7)]
    by (simp add: statusHandler_calls)
  moreover have "map (sanitize_slot h) slots =
      map (\<lambda>slot. if isArray h slot then JNull else slot) slots"
    by (simp add: sanitize_slot_def)
  ultimately show ?thesis
    using sanitized_store(1,2) [OF assms(2,6) h1_def] by auto
qed

theorem truthy_online_sanitizes_examples:
  "(\<exists>h1. calls (statusHandler quiet_registry (JRef 0) ''quayos/turtles/t42/status''
             (online_store (JNum 1))) =
           [GetTurtle ''t42'', UpdateStatus ''t42'' (JRef 0) h1] \<and>
         get_prop h1 (JRef 0) ''inventory'' = Inr (JRef 3) \<and>
         lookup h1 3 = Some (HArray [JNull])) \<and>
   (\<exists>h1. calls (statusHandler quiet_registry (JRef 0) ''quayos/turtles/t42/status''
             (online_store (JStr ''yes''))) =
           [GetTurtle ''t42'', UpdateStatus ''t42'' (JRef 0) h1] \<and>
         get_prop h1 (JRef 0) ''inventory'' = Inr (JRef 3) \<and>
         lookup h1 3 = Some (HArray [JNull]))"
proof -
  have m: "topic_match ''quayos/turtles/t42/status'' = Some ''t42''"
    by (simp add: match_here_def)
  have g: "getTurtle quiet_registry ''t42'' =
      Inr (Turtle (\<lambda>m h. Inr (Prom (Fulfilled JUndefined))))"
    by (simp add: quiet_registry_def)
  have o: "\<And>v. lookup (online_store v) 0 =
      Some (HObject [(''online'', v), (''inventory'', JRef 1)])"
    by (simp add: online_store_def lookup_def)
  have i: "\<And>v. lookup (online_store v) 1 = Some (HArray [JRef 2])"
    by (simp add: online_store_def lookup_def)
  have l: "\<And>v. length (online_store v) = 3"
    by (simp add: online_store_def)
  have sl: "\<And>v. isArray (online_store v) (JRef 2)"
    by (simp add: isArray_def lookup_def online_store_def)
  have "\<exists>h1. calls (statusHandler quiet_registry (JRef 0) ''quayos/turtles/t42/status''
             (online_store (JNum 1))) =
           [GetTurtle ''t42'', UpdateStatus ''t42'' (JRef 0) h1] \<and>
         get_prop h1 (JRef 0) ''inventory'' = Inr (JRef 3) \<and>
         lookup h1 3 = Some (HArray [JNull])"
    using truthy_online_sanitizes_inventory [OF m o _ _ _ i g, where v1 = "JNum 1" and v = "JNum 1"]
    by (simp add: l sl)
  moreover
  have "\<exists>h1. calls (statusHandler quiet_registry (JRef 0) ''quayos/turtles/t42/status''
             (online_store (JStr ''yes''))) =
           [GetTurtle ''t42'', UpdateStatus ''t42'' (JRef 0) h1] \<and>
         get_prop h1 (JRef 0) ''inventory'' = Inr (JRef 3) \<and>
         lookup h1 3 = Some (HArray [JNull])"
    using truthy_online_sanitizes_inventory [OF m o _ _ _ i g, where v1 = "JStr ''yes''" and v = "JStr ''yes''"]
    by (simp add: l sl)
  ultimately show ?thesis by simp
qed

end
